theory Spec2Isabelle
  imports Main "HOL-Library.Sublist"
begin

section \<open>Host values and effects\<close>

text \<open>
  The library is TypeScript; at run time every payload, every thrown value and every
  rejection reason is a JavaScript value. The fragment of the value universe that the
  library itself inspects is small: the two empty sentinels (\<open>null\<close>, \<open>undefined\<close>),
  the falsy-but-present primitives, \<open>Error\<close> instances (tested by \<open>instanceof Error\<close>
  in \<open>unwrap\<close>, built by \<open>new Error(message)\<close>), arrays (built by \<open>combine\<close>) and
  values that \<open>JSON.stringify\<close> refuses to render (\<open>unwrap\<close> renders its payload).
  \<open>JNum\<close> stands for the integer-valued numbers; \<open>JError m\<close> is an \<open>Error\<close> instance
  (of \<open>Error\<close> or of a subclass such as \<open>TypeError\<close>) whose message is \<open>m\<close>;
  \<open>JBigInt\<close> is a \<open>bigint\<close>. An object that refers to itself has no counterpart in
  this type; for \<open>JSON.stringify\<close> it behaves as a \<open>bigint\<close> does.
\<close>

datatype jsval =
    JUndefined
  | JNull
  | JBool bool
  | JNum int
  | JStr string
  | JError string
  | JBigInt int
  | JArray "jsval list"

text \<open>\<open>error instanceof Error\<close>.\<close>

definition instanceofError :: "jsval \<Rightarrow> bool" where
  "instanceofError v = (case v of JError _ \<Rightarrow> True | _ \<Rightarrow> False)"

text \<open>
  \<open>value != null\<close> is the loose inequality of the language: the only values loosely
  equal to \<open>null\<close> are \<open>null\<close> and \<open>undefined\<close>.
\<close>

definition looseEqNull :: "jsval \<Rightarrow> bool" where
  "looseEqNull v = (case v of JNull \<Rightarrow> True | JUndefined \<Rightarrow> True | _ \<Rightarrow> False)"

text \<open>
  \<open>JSON.stringify\<close> of the host throws a \<open>TypeError\<close> when the value is, or contains, a
  \<open>bigint\<close>; the message is the engine's (here V8's). On every other value it returns
  its rendering, which inside a template literal becomes a string; what that string
  looks like is left to the parameter \<open>render\<close>.
\<close>

fun serializable :: "jsval \<Rightarrow> bool" where
  "serializable (JBigInt n) = False"
| "serializable (JArray vs) = list_all serializable vs"
| "serializable v = True"

definition stringify_TypeError :: jsval where
  "stringify_TypeError = JError ''Do not know how to serialize a BigInt''"

definition JSON_stringify :: "(jsval \<Rightarrow> string) \<Rightarrow> jsval \<Rightarrow> jsval + string" where
  "JSON_stringify render v = (if serializable v then Inr (render v) else Inl stringify_TypeError)"

text \<open>
  A callback handed to the library is arbitrary user code: it may read and write the
  ambient state \<open>'s\<close> and it may throw. A computation therefore maps a state to an
  outcome (\<open>Inl x\<close>: the value \<open>x\<close> was thrown; \<open>Inr a\<close>: normal return of \<open>a\<close>) and
  the state it leaves behind; what a callback did before it threw stays done.
\<close>

type_synonym ('s, 'a) js = "'s \<Rightarrow> (jsval + 'a) \<times> 's"

definition js_return :: "'a \<Rightarrow> ('s, 'a) js" where
  "js_return a = (\<lambda>s. (Inr a, s))"

definition js_throw :: "jsval \<Rightarrow> ('s, 'a) js" where
  "js_throw x = (\<lambda>s. (Inl x, s))"

definition js_bind :: "('s, 'a) js \<Rightarrow> ('a \<Rightarrow> ('s, 'b) js) \<Rightarrow> ('s, 'b) js" where
  "js_bind m k = (\<lambda>s. case m s of (Inl x, s') \<Rightarrow> (Inl x, s') | (Inr a, s') \<Rightarrow> k a s')"

text \<open>\<open>try { body } catch (error) { handler(error) }\<close>.\<close>

definition js_catch :: "('s, 'a) js \<Rightarrow> (jsval \<Rightarrow> ('s, 'a) js) \<Rightarrow> ('s, 'a) js" where
  "js_catch body handler =
     (\<lambda>s. case body s of (Inl x, s') \<Rightarrow> handler x s' | (Inr a, s') \<Rightarrow> (Inr a, s'))"


text \<open>The value a computation throws from state \<open>s\<close>, if it throws.\<close>

definition thrown :: "('s, 'a) js \<Rightarrow> 's \<Rightarrow> jsval option" where
  "thrown m s = (case fst (m s) of Inl x \<Rightarrow> Some x | Inr a \<Rightarrow> None)"

text \<open>
  A call-recording stub (a jest mock function): \<open>logged l f\<close> behaves as \<open>f\<close> on
  the inner state and appends the label \<open>l\<close> to a call log that \<open>f\<close> cannot reach.
\<close>

definition logged :: "'l \<Rightarrow> ('a \<Rightarrow> ('s, 'b) js) \<Rightarrow> 'a \<Rightarrow> ('l list \<times> 's, 'b) js" where
  "logged l f = (\<lambda>a (calls, s). case f a s of (out, s') \<Rightarrow> (out, (calls @ [l], s')))"

section \<open>Result: types\<close>

text \<open>
  \<open>type Result<T, E> = Ok<T> | Err<E>\<close>, two interfaces discriminated by \<open>_tag\<close>, with
  the read-only fields \<open>value\<close> and \<open>error\<close>.
\<close>

datatype ('t, 'e) Result = Ok (val: 't) | Err (error: 'e)

definition ok :: "'t \<Rightarrow> ('t, 'e) Result" where
  "ok v = Ok v"

definition err :: "'e \<Rightarrow> ('t, 'e) Result" where
  "err e = Err e"

definition isOk :: "('t, 'e) Result \<Rightarrow> bool" where
  "isOk result = (case result of Ok _ \<Rightarrow> True | Err _ \<Rightarrow> False)"

definition isErr :: "('t, 'e) Result \<Rightarrow> bool" where
  "isErr result = (case result of Ok _ \<Rightarrow> False | Err _ \<Rightarrow> True)"

section \<open>Result: combinators\<close>

text \<open>
  Each combinator tests the tag with \<open>isOk\<close> or \<open>isErr\<close> and reads the field the tag
  guarantees; that is a case distinction on the variant. Where the source returns
  \<open>result\<close> itself at another type (\<open>Result<U, E>\<close>), the model rebuilds the same
  variant with the same payload.
\<close>

definition mapResult :: "('t, 'e) Result \<Rightarrow> ('t \<Rightarrow> ('s, 'u) js) \<Rightarrow> ('s, ('u, 'e) Result) js" where
  "mapResult result fn =
     (case result of
        Ok v \<Rightarrow> js_bind (fn v) (\<lambda>u. js_return (ok u))
      | Err e \<Rightarrow> js_return (Err e))"

definition mapErr :: "('t, 'e) Result \<Rightarrow> ('e \<Rightarrow> ('s, 'f) js) \<Rightarrow> ('s, ('t, 'f) Result) js" where
  "mapErr result fn =
     (case result of
        Err e \<Rightarrow> js_bind (fn e) (\<lambda>f. js_return (err f))
      | Ok v \<Rightarrow> js_return (Ok v))"

definition andThenResult ::
  "('t, 'e) Result \<Rightarrow> ('t \<Rightarrow> ('s, ('u, 'e) Result) js) \<Rightarrow> ('s, ('u, 'e) Result) js" where
  "andThenResult result fn =
     (case result of
        Ok v \<Rightarrow> fn v
      | Err e \<Rightarrow> js_return (Err e))"




text \<open>
  \<open>unwrap\<close> and \<open>expect\<close> call no user code; their outcome is a thrown value or the
  payload. The message of the generic error is the template literal
  \<open>`Unwrap failed: ${JSON.stringify(error)}`\<close>. The template is evaluated before
  \<open>new Error\<close> is, so when \<open>JSON.stringify\<close> throws, what it throws leaves \<open>unwrap\<close>
  and no \<open>Error\<close> of the library's is built.
\<close>

definition unwrapResult :: "(jsval \<Rightarrow> string) \<Rightarrow> ('t, jsval) Result \<Rightarrow> jsval + 't" where
  "unwrapResult render result =
     (case result of
        Ok v \<Rightarrow> Inr v
      | Err e \<Rightarrow>
          if instanceofError e then Inl e
          else (case JSON_stringify render e of
                  Inl x \<Rightarrow> Inl x
                | Inr rendering \<Rightarrow> Inl (JError (''Unwrap failed: '' @ rendering))))"


text \<open>The \<open>patterns\<close> object of \<open>match\<close>: one handler per variant.\<close>

record ('t, 'e, 's, 'r) ResultPatterns =
  on_ok :: "'t \<Rightarrow> ('s, 'r) js"
  on_err :: "'e \<Rightarrow> ('s, 'r) js"

definition matchResult :: "('t, 'e) Result \<Rightarrow> ('t, 'e, 's, 'r) ResultPatterns \<Rightarrow> ('s, 'r) js" where
  "matchResult result patterns =
     (case result of Ok v \<Rightarrow> on_ok patterns v | Err e \<Rightarrow> on_err patterns e)"

text \<open>
  \<open>combine\<close>: the \<open>for ... of\<close> loop over \<open>results\<close> with the accumulator \<open>values\<close>;
  \<open>return result\<close> leaves the loop at the first \<open>Err\<close>.
\<close>

fun combineResults_loop :: "('t, 'e) Result list \<Rightarrow> 't list \<Rightarrow> ('t list, 'e) Result" where
  "combineResults_loop [] values = ok values"
| "combineResults_loop (result # rest) values =
     (case result of
        Err e \<Rightarrow> Err e
      | Ok v \<Rightarrow> combineResults_loop rest (values @ [v]))"

definition combineResults :: "('t, 'e) Result list \<Rightarrow> ('t list, 'e) Result" where
  "combineResults results = combineResults_loop results []"

text \<open>
  \<open>tryCatch\<close>: the optional \<open>errorMapper\<close> is \<open>None\<close> when the argument is omitted.
  Only \<open>fn\<close> runs inside the \<open>try\<close> block; \<open>errorMapper\<close> runs in the \<open>catch\<close> block.
\<close>

definition tryCatch ::
  "(unit \<Rightarrow> ('s, 't) js) \<Rightarrow> (jsval \<Rightarrow> ('s, jsval) js) option \<Rightarrow> ('s, ('t, jsval) Result) js" where
  "tryCatch fn errorMapper =
     js_catch (js_bind (fn ()) (\<lambda>v. js_return (ok v)))
       (\<lambda>error.
          js_bind (case errorMapper of Some mapper \<Rightarrow> mapper error | None \<Rightarrow> js_return error)
            (\<lambda>mappedError. js_return (err mappedError)))"

definition filterResult ::
  "('t, 'e) Result \<Rightarrow> ('t \<Rightarrow> ('s, bool) js) \<Rightarrow> ('t \<Rightarrow> ('s, 'e) js) \<Rightarrow> ('s, ('t, 'e) Result) js" where
  "filterResult result predicate errorFn =
     (case result of
        Ok v \<Rightarrow>
          js_bind (predicate v) (\<lambda>keep.
            if keep then js_return (Ok v)
            else js_bind (errorFn v) (\<lambda>e. js_return (err e)))
      | Err e \<Rightarrow> js_return (Err e))"

section \<open>Option: types\<close>

text \<open>
  \<open>type Option<T> = Some<T> | None\<close> is the \<open>option\<close> type of HOL; \<open>none\<close> is a
  module-level constant.
\<close>

definition some :: "'t \<Rightarrow> 't option" where
  "some v = Some v"

definition none :: "'t option" where
  "none = None"



definition fromNullable :: "jsval \<Rightarrow> jsval option" where
  "fromNullable v = (if \<not> looseEqNull v then some v else none)"



section \<open>Option: combinators\<close>

definition mapOption :: "'t option \<Rightarrow> ('t \<Rightarrow> ('s, 'u) js) \<Rightarrow> ('s, 'u option) js" where
  "mapOption option fn =
     (case option of
        Some v \<Rightarrow> js_bind (fn v) (\<lambda>u. js_return (some u))
      | None \<Rightarrow> js_return none)"

definition andThenOption :: "'t option \<Rightarrow> ('t \<Rightarrow> ('s, 'u option) js) \<Rightarrow> ('s, 'u option) js" where
  "andThenOption option fn =
     (case option of Some v \<Rightarrow> fn v | None \<Rightarrow> js_return none)"








text \<open>
  \<open>isSome(option) && predicate(option.value) ? option : none\<close>: the conjunction is
  short-circuit, so \<open>predicate\<close> runs only on \<open>Some\<close>.
\<close>

definition filterOption :: "'t option \<Rightarrow> ('t \<Rightarrow> ('s, bool) js) \<Rightarrow> ('s, 't option) js" where
  "filterOption option predicate =
     (case option of
        Some v \<Rightarrow> js_bind (predicate v) (\<lambda>keep. js_return (if keep then Some v else none))
      | None \<Rightarrow> js_return none)"

definition map2Option ::
  "'t option \<Rightarrow> 'u option \<Rightarrow> ('t \<Rightarrow> 'u \<Rightarrow> ('s, 'v) js) \<Rightarrow> ('s, 'v option) js" where
  "map2Option option1 option2 fn =
     (case (option1, option2) of
        (Some v1, Some v2) \<Rightarrow> js_bind (fn v1 v2) (\<lambda>r. js_return (some r))
      | _ \<Rightarrow> js_return none)"


fun combineOptions_loop :: "'t option list \<Rightarrow> 't list \<Rightarrow> 't list option" where
  "combineOptions_loop [] values = some values"
| "combineOptions_loop (option # rest) values =
     (case option of
        None \<Rightarrow> none
      | Some v \<Rightarrow> combineOptions_loop rest (values @ [v]))"

definition combineOptions :: "'t option list \<Rightarrow> 't list option" where
  "combineOptions options = combineOptions_loop options []"

fun findSome :: "'t option list \<Rightarrow> 't option" where
  "findSome [] = none"
| "findSome (option # rest) = (case option of Some v \<Rightarrow> Some v | None \<Rightarrow> findSome rest)"

fun collectSome_loop :: "'t option list \<Rightarrow> 't list \<Rightarrow> 't list" where
  "collectSome_loop [] values = values"
| "collectSome_loop (option # rest) values =
     (case option of
        Some v \<Rightarrow> collectSome_loop rest (values @ [v])
      | None \<Rightarrow> collectSome_loop rest values)"

definition collectSome :: "'t option list \<Rightarrow> 't list" where
  "collectSome options = collectSome_loop options []"

section \<open>Futures and the asynchronous operations\<close>

text \<open>
  \<open>AsyncResult<T, E> = Promise<Result<T, E>>\<close> and \<open>AsyncOption<T> = Promise<Option<T>>\<close>.
  The library starts no computation of its own; it awaits futures handed to it. A future
  is represented by the way it settles: fulfilled with a value or rejected with a
  reason. \<open>await\<close> yields the value of a fulfilled future and throws the reason of a
  rejected one; a call of an \<open>async\<close> function never throws, it returns a future that
  is rejected with whatever its body threw. The order in which the host schedules the
  continuations is not represented.
\<close>

datatype 'a promise = Fulfilled 'a | Rejected jsval

definition await :: "'a promise \<Rightarrow> ('s, 'a) js" where
  "await p = (case p of Fulfilled a \<Rightarrow> js_return a | Rejected x \<Rightarrow> js_throw x)"

definition async :: "('s, 'a) js \<Rightarrow> ('s, 'a promise) js" where
  "async body =
     (\<lambda>s. case body s of
            (Inl x, s') \<Rightarrow> (Inr (Rejected x), s')
          | (Inr a, s') \<Rightarrow> (Inr (Fulfilled a), s'))"

text \<open>
  The transform of \<open>mapAsync\<close> returns \<open>U | Promise<U>\<close>; awaiting a value that is not a
  future yields the value.
\<close>

datatype 'a maybe_promise = Plain 'a | Promised "'a promise"

definition await_value :: "'a maybe_promise \<Rightarrow> ('s, 'a) js" where
  "await_value m = (case m of Plain a \<Rightarrow> js_return a | Promised p \<Rightarrow> await p)"

definition rejection_reason :: "'a promise \<Rightarrow> jsval option" where
  "rejection_reason p = (case p of Rejected x \<Rightarrow> Some x | Fulfilled a \<Rightarrow> None)"


text \<open>The reason a call leaves its returned future rejected with, if it does.\<close>

definition rejected_with :: "('s, 'a promise) js \<Rightarrow> 's \<Rightarrow> jsval option" where
  "rejected_with m s = (case fst (m s) of Inr p \<Rightarrow> rejection_reason p | Inl x \<Rightarrow> None)"


definition mapResultAsync ::
  "('t, 'e) Result promise \<Rightarrow> ('t \<Rightarrow> ('s, 'u maybe_promise) js) \<Rightarrow> ('s, ('u, 'e) Result promise) js" where
  "mapResultAsync result fn =
     async (js_bind (await result) (\<lambda>resolved.
       case resolved of
         Ok v \<Rightarrow> js_bind (js_bind (fn v) await_value) (\<lambda>mapped. js_return (ok mapped))
       | Err e \<Rightarrow> js_return (Err e)))"

definition andThenResultAsync ::
  "('t, 'e) Result promise \<Rightarrow> ('t \<Rightarrow> ('s, ('u, 'e) Result promise) js)
     \<Rightarrow> ('s, ('u, 'e) Result promise) js" where
  "andThenResultAsync result fn =
     async (js_bind (await result) (\<lambda>resolved.
       case resolved of
         Ok v \<Rightarrow> js_bind (fn v) await
       | Err e \<Rightarrow> js_return (Err e)))"



definition mapOptionAsync ::
  "'t option promise \<Rightarrow> ('t \<Rightarrow> ('s, 'u maybe_promise) js) \<Rightarrow> ('s, 'u option promise) js" where
  "mapOptionAsync option fn =
     async (js_bind (await option) (\<lambda>resolved.
       case resolved of
         Some v \<Rightarrow> js_bind (js_bind (fn v) await_value) (\<lambda>mapped. js_return (some mapped))
       | None \<Rightarrow> js_return none))"

definition andThenOptionAsync ::
  "'t option promise \<Rightarrow> ('t \<Rightarrow> ('s, 'u option promise) js) \<Rightarrow> ('s, 'u option promise) js" where
  "andThenOptionAsync option fn =
     async (js_bind (await option) (\<lambda>resolved.
       case resolved of
         Some v \<Rightarrow> js_bind (fn v) await
       | None \<Rightarrow> js_return none))"


section \<open>Containers as objects in a store\<close>

text \<open>
  A container is an object: \<open>ok(v)\<close>, \<open>err(e)\<close> and \<open>some(v)\<close> evaluate an object
  literal and so create a new instance, while \<open>return result\<close> hands back the instance
  the caller passed in. Two instances with the same tag and payload are still two
  objects. To tell them apart the containers are placed in a store: the list of the
  objects created so far. A reference is a position in that list; creating an object
  appends it. The library never assigns to a field of a container, so no operation
  below writes to a position that exists. An operation yields \<open>None\<close> only for a
  reference outside the store, which the language cannot produce.
\<close>

type_synonym ref = nat

type_synonym 'c store = "'c list"

definition lookup :: "'c store \<Rightarrow> ref \<Rightarrow> 'c option" where
  "lookup h r = (if r < length h then Some (h ! r) else None)"

definition alloc :: "'c \<Rightarrow> 'c store \<Rightarrow> ref \<times> 'c store" where
  "alloc c h = (length h, h @ [c])"

subsection \<open>Result objects\<close>

type_synonym result_obj = "(jsval, jsval) Result"

definition ok_ref :: "jsval \<Rightarrow> result_obj store \<Rightarrow> ref \<times> result_obj store" where
  "ok_ref v h = alloc (Ok v) h"

definition err_ref :: "jsval \<Rightarrow> result_obj store \<Rightarrow> ref \<times> result_obj store" where
  "err_ref e h = alloc (Err e) h"

definition mapResult_ref ::
  "result_obj store \<Rightarrow> ref \<Rightarrow> (jsval \<Rightarrow> jsval) \<Rightarrow> (ref \<times> result_obj store) option" where
  "mapResult_ref h result fn =
     (case lookup h result of
        None \<Rightarrow> None
      | Some (Ok v) \<Rightarrow> Some (ok_ref (fn v) h)
      | Some (Err e) \<Rightarrow> Some (result, h))"

definition mapErr_ref ::
  "result_obj store \<Rightarrow> ref \<Rightarrow> (jsval \<Rightarrow> jsval) \<Rightarrow> (ref \<times> result_obj store) option" where
  "mapErr_ref h result fn =
     (case lookup h result of
        None \<Rightarrow> None
      | Some (Err e) \<Rightarrow> Some (err_ref (fn e) h)
      | Some (Ok v) \<Rightarrow> Some (result, h))"



definition filterResult_ref ::
  "result_obj store \<Rightarrow> ref \<Rightarrow> (jsval \<Rightarrow> bool) \<Rightarrow> (jsval \<Rightarrow> jsval)
     \<Rightarrow> (ref \<times> result_obj store) option" where
  "filterResult_ref h result predicate errorFn =
     (case lookup h result of
        None \<Rightarrow> None
      | Some (Ok v) \<Rightarrow> if predicate v then Some (result, h) else Some (err_ref (errorFn v) h)
      | Some (Err e) \<Rightarrow> Some (result, h))"

fun combineResults_ref_loop ::
  "result_obj store \<Rightarrow> ref list \<Rightarrow> jsval list \<Rightarrow> (ref \<times> result_obj store) option" where
  "combineResults_ref_loop h [] values = Some (ok_ref (JArray values) h)"
| "combineResults_ref_loop h (result # rest) values =
     (case lookup h result of
        None \<Rightarrow> None
      | Some (Err e) \<Rightarrow> Some (result, h)
      | Some (Ok v) \<Rightarrow> combineResults_ref_loop h rest (values @ [v]))"




subsection \<open>Option objects\<close>

text \<open>
  \<open>none\<close> is one object, created when the module is loaded: it is the first object of
  every Option store, and every operation that answers \<open>none\<close> returns that instance.
\<close>

type_synonym option_obj = "jsval option"

definition none_ref :: ref where
  "none_ref = 0"

definition some_ref :: "jsval \<Rightarrow> option_obj store \<Rightarrow> ref \<times> option_obj store" where
  "some_ref v h = alloc (Some v) h"

definition mapOption_ref ::
  "option_obj store \<Rightarrow> ref \<Rightarrow> (jsval \<Rightarrow> jsval) \<Rightarrow> (ref \<times> option_obj store) option" where
  "mapOption_ref h option fn =
     (case lookup h option of
        None \<Rightarrow> None
      | Some (Some v) \<Rightarrow> Some (some_ref (fn v) h)
      | Some None \<Rightarrow> Some (none_ref, h))"



definition filterOption_ref ::
  "option_obj store \<Rightarrow> ref \<Rightarrow> (jsval \<Rightarrow> bool) \<Rightarrow> (ref \<times> option_obj store) option" where
  "filterOption_ref h option predicate =
     (case lookup h option of
        None \<Rightarrow> None
      | Some (Some v) \<Rightarrow> if predicate v then Some (option, h) else Some (none_ref, h)
      | Some None \<Rightarrow> Some (none_ref, h))"

definition map2Option_ref ::
  "option_obj store \<Rightarrow> ref \<Rightarrow> ref \<Rightarrow> (jsval \<Rightarrow> jsval \<Rightarrow> jsval)
     \<Rightarrow> (ref \<times> option_obj store) option" where
  "map2Option_ref h option1 option2 fn =
     (case (lookup h option1, lookup h option2) of
        (Some (Some v1), Some (Some v2)) \<Rightarrow> Some (some_ref (fn v1 v2) h)
      | (Some _, Some _) \<Rightarrow> Some (none_ref, h)
      | _ \<Rightarrow> None)"


fun combineOptions_ref_loop ::
  "option_obj store \<Rightarrow> ref list \<Rightarrow> jsval list \<Rightarrow> (ref \<times> option_obj store) option" where
  "combineOptions_ref_loop h [] values = Some (some_ref (JArray values) h)"
| "combineOptions_ref_loop h (option # rest) values =
     (case lookup h option of
        None \<Rightarrow> None
      | Some None \<Rightarrow> Some (none_ref, h)
      | Some (Some v) \<Rightarrow> combineOptions_ref_loop h rest (values @ [v]))"


fun findSome_ref :: "option_obj store \<Rightarrow> ref list \<Rightarrow> (ref \<times> option_obj store) option" where
  "findSome_ref h [] = Some (none_ref, h)"
| "findSome_ref h (option # rest) =
     (case lookup h option of
        None \<Rightarrow> None
      | Some (Some v) \<Rightarrow> Some (option, h)
      | Some None \<Rightarrow> findSome_ref h rest)"



subsection \<open>What a call may do to the store\<close>









section \<open>Properties of combine\<close>

lemma combineResults_loop_all_ok:
  "\<forall>r \<in> set rs. isOk r \<Longrightarrow> combineResults_loop rs acc = Ok (acc @ map val rs)"
  by (induction rs arbitrary: acc) (auto simp: isOk_def ok_def split: Result.splits)

lemma combineResults_loop_first_err:
  "\<forall>r \<in> set pre. isOk r \<Longrightarrow> combineResults_loop (pre @ Err e # post) acc = Err e"
  by (induction pre arbitrary: acc) (auto simp: isOk_def split: Result.splits)

lemma combineResults_loop_find:
  "combineResults_loop rs acc =
     (case find isErr rs of Some r \<Rightarrow> Err (error r) | None \<Rightarrow> Ok (acc @ map val rs))"
  by (induction rs arbitrary: acc) (auto simp: isErr_def ok_def split: Result.splits option.splits)

text \<open>
  C1. \<open>combine\<close> returns the first \<open>Err\<close> element in iteration order when there is one
  (\<open>find isErr\<close> is the first element of the list that is an \<open>Err\<close>), and otherwise
  \<open>Ok\<close> of the success values in input order. Whatever follows the first \<open>Err\<close>
  contributes nothing: the result is the same for every tail \<open>post\<close>.
\<close>

theorem combineResults_first_failure_wins:
  "combineResults rs =
     (case find isErr rs of Some r \<Rightarrow> Err (error r) | None \<Rightarrow> Ok (map val rs))
   \<and> ((\<forall>r \<in> set pre. isOk r) \<longrightarrow> combineResults (pre @ Err e # post) = Err e)
   \<and> ((\<forall>r \<in> set rs. isOk r) \<longrightarrow> combineResults rs = Ok (map val rs))"
  using combineResults_loop_find [of rs "[]"] combineResults_loop_first_err [of pre e post "[]"]
    combineResults_loop_all_ok [of rs "[]"]
  by (simp add: combineResults_def split: option.splits)

theorem combineResults_first_failure_wins_witness:
  "combineResults [Ok (1::int), Err ''X'', Ok 3] = Err ''X''
   \<and> combineResults [Ok (1::int), Ok 2, Ok 3] = (Ok [1, 2, 3] :: (int list, string) Result)
   \<and> combineResults [Ok (1::int), Err ''X'', Ok 3, Err ''Y''] = Err ''X''"
proof -
  have "combineResults [Ok (1::int), Err ''X'', Ok 3] = Err ''X''"
    using combineResults_first_failure_wins
      [of "[Ok (1::int), Err ''X'', Ok 3]" "[Ok (1::int)]" "''X''" "[Ok (3::int)]"]
    by (auto simp add: isOk_def isErr_def)
  moreover have "combineResults [Ok (1::int), Ok 2, Ok 3] = (Ok [1, 2, 3] :: (int list, string) Result)"
    using combineResults_first_failure_wins
      [of "[Ok (1::int), Ok 2, Ok 3] :: (int, string) Result list" "[]" "''X''" "[]"]
    by (auto simp add: isOk_def isErr_def)
  moreover have "combineResults [Ok (1::int), Err ''X'', Ok 3, Err ''Y''] = Err ''X''"
    using combineResults_first_failure_wins
      [of "[Ok (1::int), Err ''X'', Ok 3, Err ''Y'']" "[Ok (1::int)]" "''X''" "[Ok (3::int), Err ''Y'']"]
    by (auto simp add: isOk_def isErr_def)
  ultimately show ?thesis by simp
qed

text \<open>
  C10. On the empty list both \<open>combine\<close> operations succeed with the empty array.
\<close>

theorem combine_empty:
  "combineResults [] = Ok [] \<and> combineOptions [] = Some []"
  by (simp add: combineResults_def combineOptions_def ok_def some_def)

section \<open>Short-circuiting on the failure variant\<close>

lemma mapResult_Err: "mapResult (Err e) f s = (Inr (Err e), s)"
  by (simp add: mapResult_def js_return_def)

lemma andThenResult_Err: "andThenResult (Err e) g s = (Inr (Err e), s)"
  by (simp add: andThenResult_def js_return_def)

text \<open>
  C3. On \<open>err(e)\<close>, \<open>map\<close> and \<open>andThen\<close> return \<open>err(e)\<close> for every callback, also
  one that would throw or change the state: the outcome is a normal return and the
  state is the one before the call. With a call-recording stub in the callback's place
  the call log is unchanged, so the callback was not invoked.
\<close>

theorem map_andThen_err_propagates:
  "mapResult (err e) f s = (Inr (err e), s)
   \<and> andThenResult (err e) g s = (Inr (err e), s)
   \<and> mapResult (err e) (logged l f) (calls, s) = (Inr (err e), (calls, s))
   \<and> andThenResult (err e) (logged l g) (calls, s) = (Inr (err e), (calls, s))"
  by (simp add: err_def mapResult_Err andThenResult_Err)

section \<open>Unsafe extraction\<close>

text \<open>
  C4. \<open>unwrap(ok(v))\<close> returns \<open>v\<close>, and \<open>unwrap(err(e))\<close> always throws: \<open>e\<close> itself
  when \<open>e\<close> is an \<open>Error\<close> instance, and a new \<open>Error\<close> whose message is
  \<open>Unwrap failed: \<close> followed by the rendering of \<open>e\<close> when \<open>JSON.stringify\<close> accepts
  \<open>e\<close>. On a payload that \<open>JSON.stringify\<close> refuses, such as \<open>err(1n)\<close>, the code does
  not do what C4 says: the host's \<open>TypeError\<close> is thrown, which is neither the payload
  nor an error whose message begins with \<open>Unwrap failed\<close>.
\<close>

theorem unwrapResult_unserializable_payload:
  "unwrapResult render (err (JBigInt 1)) = Inl stringify_TypeError
   \<and> stringify_TypeError \<noteq> JBigInt 1
   \<and> (\<forall>rendering. stringify_TypeError \<noteq> JError (''Unwrap failed: '' @ rendering))
   \<and> unwrapResult render (ok v) = Inr v
   \<and> isl (unwrapResult render (err e))
   \<and> unwrapResult render (err e) =
       Inl (if instanceofError e then e
            else if serializable e then JError (''Unwrap failed: '' @ render e)
            else stringify_TypeError)
   \<and> unwrapResult render (err (JError m)) = Inl (JError m)"
  by (simp add: unwrapResult_def ok_def err_def instanceofError_def JSON_stringify_def
      stringify_TypeError_def)

section \<open>Capturing thrown values\<close>

text \<open>
  C5. \<open>tryCatch(f, errorMapper)\<close>: when \<open>f\<close> returns \<open>v\<close> the result is \<open>ok(v)\<close>, with
  or without a mapper; when \<open>f\<close> throws \<open>x\<close> the result is \<open>err(x)\<close> without a mapper
  and the evaluation of \<open>err(errorMapper(x))\<close> with one: \<open>err(y)\<close> when the mapper
  returns \<open>y\<close> on \<open>x\<close>. The state is the one the last callback left.
\<close>

theorem tryCatch_captures:
  "tryCatch f errorMapper s =
     (case f () s of
        (Inr v, s') \<Rightarrow> (Inr (ok v), s')
      | (Inl x, s') \<Rightarrow>
          (case errorMapper of
             None \<Rightarrow> (Inr (err x), s')
           | Some mapper \<Rightarrow> js_bind (mapper x) (\<lambda>y. js_return (err y)) s'))
   \<and> (f () s = (Inr v, s') \<longrightarrow> tryCatch f errorMapper s = (Inr (ok v), s'))
   \<and> (f () s = (Inl x, s') \<longrightarrow> tryCatch f None s = (Inr (err x), s'))
   \<and> (f () s = (Inl x, s') \<and> mapper x s' = (Inr y, s'')
        \<longrightarrow> tryCatch f (Some mapper) s = (Inr (err y), s''))"
  by (simp add: tryCatch_def js_catch_def js_bind_def js_return_def
      split: prod.splits sum.splits option.splits)

theorem tryCatch_captures_witness:
  "tryCatch (\<lambda>_. js_return (42::int)) None () = (Inr (ok 42), ())
   \<and> tryCatch (\<lambda>_. js_throw (JError ''boom'') :: (unit, int) js) None ()
       = (Inr (err (JError ''boom'')), ())
   \<and> tryCatch (\<lambda>_. js_throw (JError ''boom'') :: (unit, int) js)
         (Some (\<lambda>e. js_return (case e of JError m \<Rightarrow> JStr (''mapped:'' @ m) | _ \<Rightarrow> JUndefined))) ()
       = (Inr (err (JStr ''mapped:boom'')), ())"
proof -
  let ?ret = "(\<lambda>_. js_return (42::int)) :: unit \<Rightarrow> (unit, int) js"
  let ?boom = "(\<lambda>_. js_throw (JError ''boom'')) :: unit \<Rightarrow> (unit, int) js"
  let ?mapper = "(\<lambda>e. js_return (case e of JError m \<Rightarrow> JStr (''mapped:'' @ m) | _ \<Rightarrow> JUndefined))
                   :: jsval \<Rightarrow> (unit, jsval) js"
  have "tryCatch ?ret None () = (Inr (ok 42), ())"
    using tryCatch_captures
      [where f = ?ret and s = "()" and v = 42 and s' = "()" and errorMapper = None
         and x = JNull and mapper = ?mapper and y = JNull and s'' = "()"]
    by (simp add: js_return_def)
  moreover have "tryCatch ?boom None () = (Inr (err (JError ''boom'')), ())"
    using tryCatch_captures
      [where f = ?boom and s = "()" and v = 0 and s' = "()" and errorMapper = None
         and x = "JError ''boom''" and mapper = ?mapper and y = JNull and s'' = "()"]
    by (simp add: js_throw_def)
  moreover have "tryCatch ?boom (Some ?mapper) () = (Inr (err (JStr ''mapped:boom'')), ())"
    using tryCatch_captures
      [where f = ?boom and s = "()" and v = 0 and s' = "()" and errorMapper = None
         and x = "JError ''boom''" and mapper = ?mapper and y = "JStr ''mapped:boom''"
         and s'' = "()"]
    by (simp add: js_throw_def js_return_def)
  ultimately show ?thesis by simp
qed

section \<open>The nullable adapter\<close>

text \<open>
  C7. \<open>fromNullable(v)\<close> is \<open>none\<close> exactly when \<open>v\<close> is \<open>null\<close> or \<open>undefined\<close>, and
  \<open>some(v)\<close> for every other value; in particular for \<open>0\<close>, the empty string and
  \<open>false\<close>.
\<close>

theorem fromNullable_boundary:
  "fromNullable v = (if v = JNull \<or> v = JUndefined then none else some v)
   \<and> (fromNullable v = none \<longleftrightarrow> v = JNull \<or> v = JUndefined)
   \<and> fromNullable (JNum 0) = some (JNum 0)
   \<and> fromNullable (JStr []) = some (JStr [])
   \<and> fromNullable (JBool False) = some (JBool False)
   \<and> fromNullable JNull = none
   \<and> fromNullable JUndefined = none"
  by (cases v) (simp_all add: fromNullable_def looseEqNull_def some_def none_def)

section \<open>Pattern matching\<close>

text \<open>
  C8. Matching \<open>r\<close> with the two constructors as handlers gives back \<open>r\<close>, variant and
  payload, and leaves the state alone. With call-recording stubs around arbitrary
  handlers, one call of \<open>match\<close> adds exactly one entry to the call log: the handler of
  the variant of \<open>r\<close>.
\<close>

theorem matchResult_round_trip:
  "matchResult r \<lparr>on_ok = (\<lambda>v. js_return (ok v)), on_err = (\<lambda>e. js_return (err e))\<rparr> s = (Inr r, s)
   \<and> fst (snd (matchResult r \<lparr>on_ok = logged True okb, on_err = logged False errb\<rparr> (calls, s)))
       = calls @ [isOk r]"
  by (cases r) (simp_all add: matchResult_def js_return_def ok_def err_def logged_def isOk_def
      split: prod.splits)

section \<open>The asynchronous duals\<close>

lemma bind_async_await: "js_bind (async body) await = body"
  by (rule ext) (simp add: js_bind_def async_def await_def js_return_def js_throw_def
      split: prod.splits sum.splits)

lemma await_Fulfilled_bind: "js_bind (await (Fulfilled a)) k = k a"
  by (rule ext) (simp add: js_bind_def await_def js_return_def)

lemma bind_return_Plain:
  "js_bind (js_bind m (\<lambda>u. js_return (Plain u))) await_value = m"
  by (rule ext) (simp add: js_bind_def await_value_def js_return_def
      split: prod.splits sum.splits)

text \<open>
  C9. Awaiting \<open>mapAsync\<close> (\<open>andThenAsync\<close>) on a future fulfilled with \<open>r\<close> is the
  synchronous \<open>map\<close> (\<open>andThen\<close>) on \<open>r\<close> with the transform's result awaited: same
  outcome, same final state, for Result and for Option. For a transform that returns a
  plain value this is \<open>map(r, f)\<close> itself. The input future is awaited first: when it
  is rejected, the returned future is rejected with the same reason and no transform
  runs.
\<close>

theorem async_duals_agree:
  "js_bind (mapResultAsync (Fulfilled r) fn) await
     = mapResult r (\<lambda>v. js_bind (fn v) await_value)
   \<and> js_bind (mapResultAsync (Fulfilled r) (\<lambda>v. js_bind (f v) (\<lambda>u. js_return (Plain u)))) await
     = mapResult r f
   \<and> js_bind (andThenResultAsync (Fulfilled r) gn) await
     = andThenResult r (\<lambda>v. js_bind (gn v) await)
   \<and> js_bind (mapOptionAsync (Fulfilled option) fn) await
     = mapOption option (\<lambda>v. js_bind (fn v) await_value)
   \<and> js_bind (mapOptionAsync (Fulfilled option) (\<lambda>v. js_bind (f v) (\<lambda>u. js_return (Plain u)))) await
     = mapOption option f
   \<and> js_bind (andThenOptionAsync (Fulfilled option) hn) await
     = andThenOption option (\<lambda>v. js_bind (hn v) await)
   \<and> mapResultAsync (Rejected x) fn s = (Inr (Rejected x), s)
   \<and> andThenResultAsync (Rejected x) gn s = (Inr (Rejected x), s)
   \<and> mapOptionAsync (Rejected x) fn s = (Inr (Rejected x), s)
   \<and> andThenOptionAsync (Rejected x) hn s = (Inr (Rejected x), s)"
proof -
  have rejected: "async (js_bind (await (Rejected x)) k) s = (Inr (Rejected x), s)" for k :: "'z \<Rightarrow> ('y, 'w) js" and s
    by (simp add: async_def js_bind_def await_def js_throw_def)
  show ?thesis
    by (simp add: mapResultAsync_def andThenResultAsync_def mapOptionAsync_def
        andThenOptionAsync_def bind_async_await await_Fulfilled_bind bind_return_Plain
        mapResult_def andThenResult_def mapOption_def andThenOption_def rejected
        split: Result.splits option.splits)
qed


section \<open>Which operations can throw, and what\<close>


lemma thrown_return [simp]: "thrown (js_return a) s = None"
  by (simp add: thrown_def js_return_def)

lemma thrown_bind_return [simp]: "thrown (js_bind m (\<lambda>a. js_return (k a))) s = thrown m s"
  by (simp add: thrown_def js_bind_def js_return_def split: prod.splits sum.splits)

lemma thrown_async [simp]: "thrown (async body) s = None"
  by (simp add: thrown_def async_def split: prod.splits sum.splits)

lemma rejected_with_async [simp]: "rejected_with (async body) s = thrown body s"
  by (simp add: rejected_with_def rejection_reason_def thrown_def async_def
      split: prod.splits sum.splits)


lemma thrown_await [simp]: "thrown (await p) s = rejection_reason p"
  by (simp add: thrown_def await_def rejection_reason_def js_return_def js_throw_def
      split: promise.splits)























section \<open>Instances: what is created, what is handed back, what is changed\<close>





































subsection \<open>The store model agrees with the value model\<close>

text \<open>
  For callbacks without effects, the container an operation on references returns
  holds the value the corresponding operation on values computes. For Option this
  needs the \<open>none\<close> object to be in its place.
\<close>

lemma mapResult_ref_content:
  "lookup h r = Some c \<Longrightarrow>
     \<exists>r' h'. mapResult_ref h r fn = Some (r', h')
       \<and> mapResult c (\<lambda>v. js_return (fn v)) s = (Inr (h' ! r'), s)"
  by (cases c)
    (auto simp: mapResult_ref_def mapResult_def ok_ref_def alloc_def ok_def js_bind_def
      js_return_def lookup_def split: if_splits)

lemma mapErr_ref_content:
  "lookup h r = Some c \<Longrightarrow>
     \<exists>r' h'. mapErr_ref h r fn = Some (r', h')
       \<and> mapErr c (\<lambda>v. js_return (fn v)) s = (Inr (h' ! r'), s)"
  by (cases c)
    (auto simp: mapErr_ref_def mapErr_def err_ref_def alloc_def err_def js_bind_def
      js_return_def lookup_def split: if_splits)

lemma filterResult_ref_content:
  "lookup h r = Some c \<Longrightarrow>
     \<exists>r' h'. filterResult_ref h r predicate errorFn = Some (r', h')
       \<and> filterResult c (\<lambda>v. js_return (predicate v)) (\<lambda>v. js_return (errorFn v)) s
           = (Inr (h' ! r'), s)"
  by (cases c)
    (auto simp: filterResult_ref_def filterResult_def err_ref_def alloc_def err_def js_bind_def
      js_return_def lookup_def split: if_splits)

lemma combineResults_ref_loop_content:
  "\<forall>r \<in> set rs. r < length h \<Longrightarrow>
     \<exists>r' h'. combineResults_ref_loop h rs acc = Some (r', h')
       \<and> h' ! r' = (case combineResults_loop (map ((!) h) rs) acc of
                      Ok vs \<Rightarrow> Ok (JArray vs) | Err e \<Rightarrow> Err e)"
proof (induction rs arbitrary: acc)
  case Nil
  show ?case by (simp add: ok_ref_def alloc_def ok_def)
next
  case (Cons r rs)
  then show ?case
    by (cases "h ! r") (simp_all add: lookup_def)
qed

lemma mapOption_ref_content:
  "lookup g none_ref = Some None \<Longrightarrow> lookup g q = Some c \<Longrightarrow>
     \<exists>r' g'. mapOption_ref g q fn = Some (r', g')
       \<and> mapOption c (\<lambda>v. js_return (fn v)) s = (Inr (g' ! r'), s)"
  by (cases c)
    (auto simp: mapOption_ref_def mapOption_def some_ref_def alloc_def some_def none_def
      js_bind_def js_return_def lookup_def split: if_splits)

lemma filterOption_ref_content:
  "lookup g none_ref = Some None \<Longrightarrow> lookup g q = Some c \<Longrightarrow>
     \<exists>r' g'. filterOption_ref g q keep = Some (r', g')
       \<and> filterOption c (\<lambda>v. js_return (keep v)) s = (Inr (g' ! r'), s)"
  by (cases c)
    (auto simp: filterOption_ref_def filterOption_def none_def
      js_bind_def js_return_def lookup_def split: if_splits)

lemma combineOptions_ref_loop_content:
  "lookup g none_ref = Some None \<Longrightarrow> \<forall>q \<in> set qs. q < length g \<Longrightarrow>
     \<exists>r' g'. combineOptions_ref_loop g qs acc = Some (r', g')
       \<and> g' ! r' = map_option JArray (combineOptions_loop (map ((!) g) qs) acc)"
proof (induction qs arbitrary: acc)
  case Nil
  show ?case by (simp add: some_ref_def alloc_def some_def)
next
  case (Cons q qs)
  then show ?case
    by (cases "g ! q") (auto simp: lookup_def none_def split: if_splits)
qed

lemma findSome_ref_content:
  "lookup g none_ref = Some None \<Longrightarrow> \<forall>q \<in> set qs. q < length g \<Longrightarrow>
     \<exists>r'. findSome_ref g qs = Some (r', g) \<and> g ! r' = findSome (map ((!) g) qs)"
proof (induction qs)
  case Nil
  then show ?case by (auto simp: lookup_def none_def split: if_splits)
next
  case (Cons q qs)
  then show ?case
    by (cases "g ! q") (auto simp: lookup_def split: if_splits)
qed

lemma map2Option_ref_content:
  "lookup g none_ref = Some None \<Longrightarrow> lookup g q1 = Some c1 \<Longrightarrow> lookup g q2 = Some c2 \<Longrightarrow>
     \<exists>r' g'. map2Option_ref g q1 q2 fn = Some (r', g')
       \<and> map2Option c1 c2 (\<lambda>a b. js_return (fn a b)) s = (Inr (g' ! r'), s)"
  by (cases c1; cases c2)
    (auto simp: map2Option_ref_def map2Option_def some_ref_def alloc_def some_def none_def
      js_bind_def js_return_def lookup_def split: if_splits)




end
